theory Spec2Isabelle
  imports Main
begin

section \<open>The constructs declared by \<open>packages/iac/lib/iac-stack.ts\<close>\<close>

text \<open>
  The program is one class, \<open>IacStack\<close>, whose constructor declares a resource graph:
  a VPC, an ECS cluster, a Fargate task definition and service, an application load
  balancer with two listeners, two target groups and two listener rules. Each construct
  is a record holding the properties the source passes to it; a construct that refers to
  another one holds the other's construct id (the string the source gives as second
  argument of \<open>new\<close>). A property the source leaves out of an object literal is
  \<open>None\<close>. The methods that mutate a construct (\<open>addPortMappings\<close>,
  \<open>addIngressRule\<close>, \<open>addListener\<close>, \<open>attachToApplicationTargetGroup\<close>) take
  the construct and return it updated.
\<close>

subsection \<open>Network, cluster and roles\<close>

datatype SubnetType = PUBLIC | PRIVATE_WITH_EGRESS

record SubnetConfiguration =
  cidrMask :: nat
  name :: string
  subnetType :: SubnetType

record Vpc =
  maxAzs :: nat
  natGateways :: nat
  subnetConfiguration :: "SubnetConfiguration list"

record SubnetSelection =
  subnetGroupName :: string

definition selectSubnets :: "Vpc \<Rightarrow> SubnetSelection \<Rightarrow> SubnetSelection" where
  "selectSubnets v sel = sel"

record Cluster =
  cluster_vpc :: string

record Role =
  assumedBy :: string
  managedPolicies :: "string list"

datatype Peer = anyIpv4

datatype Port = tcp nat

record SecurityGroup =
  sg_vpc :: string
  allowAllOutbound :: bool
  ingressRules :: "(Peer \<times> Port) list"

definition addIngressRule :: "SecurityGroup \<Rightarrow> Peer \<Rightarrow> Port \<Rightarrow> SecurityGroup" where
  "addIngressRule sg peer p = sg\<lparr>ingressRules := ingressRules sg @ [(peer, p)]\<rparr>"

subsection \<open>Task definition\<close>

datatype Platform = LINUX_AMD64

record ContainerImage =
  assetDirectory :: string
  platform :: Platform

record PortMapping =
  pm_containerPort :: nat

record AwsLogDriverProps =
  streamPrefix :: string

record ContainerDefinition =
  cd_containerName :: string
  containerImage :: ContainerImage
  essential :: bool
  logging :: AwsLogDriverProps
  portMappings :: "PortMapping list"

definition addPortMappings :: "ContainerDefinition \<Rightarrow> PortMapping \<Rightarrow> ContainerDefinition" where
  "addPortMappings c pm = c\<lparr>portMappings := portMappings c @ [pm]\<rparr>"

record FargateTaskDefinition =
  cpu :: nat
  memoryLimitMiB :: nat
  executionRole :: string
  containers :: "(string \<times> ContainerDefinition) list"

definition addContainer ::
  "FargateTaskDefinition \<Rightarrow> string \<Rightarrow> ContainerDefinition \<Rightarrow> FargateTaskDefinition" where
  "addContainer td cid c = td\<lparr>containers := containers td @ [(cid, c)]\<rparr>"

subsection \<open>Durations\<close>

datatype TimeUnit = Milliseconds | Seconds | Minutes | Hours | Days

record Duration =
  amount :: nat
  timeUnit :: TimeUnit

definition Duration_minutes :: "nat \<Rightarrow> Duration" where
  "Duration_minutes n = \<lparr>amount = n, timeUnit = Minutes\<rparr>"

subsection \<open>Load balancer: target groups, listeners, rules\<close>

datatype ApplicationProtocol = ApplicationProtocol_HTTP | ApplicationProtocol_HTTPS

datatype Protocol = Protocol_HTTP | Protocol_HTTPS | Protocol_TCP

datatype TargetType = TargetType_INSTANCE | TargetType_IP | TargetType_LAMBDA

record HealthCheck =
  hc_path :: "string option"
  hc_port :: "string option"
  hc_protocol :: "Protocol option"
  hc_interval :: "Duration option"
  hc_timeout :: "Duration option"
  healthyThresholdCount :: "nat option"
  unhealthyThresholdCount :: "nat option"
  healthyHttpCodes :: "string option"

record ApplicationTargetGroup =
  targetGroupName :: string
  tg_vpc :: string
  tg_protocol :: ApplicationProtocol
  targetType :: TargetType
  healthCheck :: HealthCheck

record FixedResponseOptions =
  contentType :: string
  messageBody :: string

datatype ListenerAction =
    fixedResponse nat FixedResponseOptions
  | forward "string list"

datatype ListenerCondition =
    pathPatterns "string list"
  | hostHeaders "string list"
  | httpRequestMethods "string list"

record ApplicationListener =
  listenerPort :: nat
  listenerProtocol :: ApplicationProtocol
  defaultAction :: ListenerAction

record ApplicationListenerRule =
  listener :: string
  priority :: nat
  conditions :: "ListenerCondition list"
  action :: ListenerAction

record ApplicationLoadBalancer =
  alb_vpc :: string
  internetFacing :: bool
  alb_securityGroup :: string
  alb_vpcSubnets :: SubnetSelection
  listeners :: "(string \<times> ApplicationListener) list"

definition addListener ::
  "ApplicationLoadBalancer \<Rightarrow> string \<Rightarrow> ApplicationListener \<Rightarrow> ApplicationLoadBalancer" where
  "addListener lb lid l = lb\<lparr>listeners := listeners lb @ [(lid, l)]\<rparr>"

subsection \<open>The service and its load balancer target\<close>

datatype FargatePlatformVersion = LATEST | VERSION1_3 | VERSION1_4

datatype DeploymentStrategy = ROLLING | BLUE_GREEN

datatype ecs_Protocol = ecs_TCP | ecs_UDP

datatype ListenerRuleConfiguration =
    applicationListenerRule string
  | networkListener string

record AlternateTarget =
  alternateTargetId :: string
  alternateTargetGroup :: string
  productionListener :: "ListenerRuleConfiguration option"
  testListener :: "ListenerRuleConfiguration option"
  role :: "string option"

record LoadBalancerTargetOptions =
  lbt_containerName :: string
  lbt_containerPort :: nat
  lbt_protocol :: ecs_Protocol
  alternateTarget :: "AlternateTarget option"

text \<open>
  \<open>service.loadBalancerTarget(options)\<close> returns a target object that remembers its
  options; \<open>target.attachToApplicationTargetGroup(group)\<close> registers the service
  behind that group, with the options of the target.
\<close>

record LoadBalancer =
  lb_targetGroup :: string
  lb_target :: LoadBalancerTargetOptions

record FargateService =
  svc_cluster :: string
  svc_taskDefinition :: string
  platformVersion :: FargatePlatformVersion
  desiredCount :: nat
  assignPublicIp :: bool
  svc_securityGroups :: "string list"
  svc_vpcSubnets :: SubnetSelection
  deploymentStrategy :: DeploymentStrategy
  bakeTime :: Duration
  loadBalancers :: "LoadBalancer list"

definition loadBalancerTarget ::
  "FargateService \<Rightarrow> LoadBalancerTargetOptions \<Rightarrow> LoadBalancerTargetOptions" where
  "loadBalancerTarget svc opts = opts"

definition attachToApplicationTargetGroup ::
  "FargateService \<Rightarrow> LoadBalancerTargetOptions \<Rightarrow> string \<Rightarrow> FargateService" where
  "attachToApplicationTargetGroup svc target tg =
     svc\<lparr>loadBalancers := loadBalancers svc @ [\<lparr>lb_targetGroup = tg, lb_target = target\<rparr>]\<rparr>"

subsection \<open>The stack\<close>

record StackProps =
  stackName :: "string option"
  description :: "string option"
  envAccount :: "string option"
  envRegion :: "string option"

record Stack =
  stackId :: string
  stackProps :: "StackProps option"
  vpc :: Vpc
  cluster :: Cluster
  taskExecutionRole :: Role
  taskDefinition :: FargateTaskDefinition
  appSg :: SecurityGroup
  infrastructureRole :: Role
  service :: FargateService
  albSg :: SecurityGroup
  alb :: ApplicationLoadBalancer
  targetGroups :: "(string \<times> ApplicationTargetGroup) list"
  listenerRules :: "(string \<times> ApplicationListenerRule) list"

text \<open>
  The constructor, statement by statement. A \<open>const\<close> of the source that a later
  method call mutates is bound again under a primed name.
\<close>

definition IacStack :: "string \<Rightarrow> StackProps option \<Rightarrow> Stack" where
  "IacStack sid props =
    (let
      vpc0 = \<lparr>maxAzs = 2, natGateways = 1,
              subnetConfiguration =
                [\<lparr>cidrMask = 24, name = ''Public'', subnetType = PUBLIC\<rparr>,
                 \<lparr>cidrMask = 24, name = ''Private'',
                  subnetType = PRIVATE_WITH_EGRESS\<rparr>]\<rparr>;
      cluster0 = \<lparr>cluster_vpc = ''Vpc''\<rparr>;
      taskExecutionRole0 =
        \<lparr>assumedBy = ''ecs-tasks.amazonaws.com'',
         managedPolicies = [''service-role/AmazonECSTaskExecutionRolePolicy'']\<rparr>;
      taskDefinition0 =
        \<lparr>cpu = 256, memoryLimitMiB = 512, executionRole = ''TaskExecutionRole'',
         containers = []\<rparr>;
      appContainer =
        \<lparr>cd_containerName = ''app'',
         containerImage = \<lparr>assetDirectory = ''../../server/'', platform = LINUX_AMD64\<rparr>,
         essential = True,
         logging = \<lparr>streamPrefix = ''ecs-blue-green''\<rparr>,
         portMappings = []\<rparr>;
      appContainer' = addPortMappings appContainer \<lparr>pm_containerPort = 80\<rparr>;
      taskDefinition' = addContainer taskDefinition0 ''App'' appContainer';
      appSg0 = \<lparr>sg_vpc = ''Vpc'', allowAllOutbound = True, ingressRules = []\<rparr>;
      infrastructureRole0 =
        \<lparr>assumedBy = ''ecs.amazonaws.com'',
         managedPolicies = [''AmazonECSInfrastructureRolePolicyForLoadBalancers'']\<rparr>;
      service0 =
        \<lparr>svc_cluster = ''Cluster'',
         svc_taskDefinition = ''TaskDefinition'',
         platformVersion = VERSION1_4,
         desiredCount = 1,
         assignPublicIp = False,
         svc_securityGroups = [''AppSg''],
         svc_vpcSubnets = selectSubnets vpc0 \<lparr>subnetGroupName = ''Private''\<rparr>,
         deploymentStrategy = BLUE_GREEN,
         bakeTime = Duration_minutes 2,
         loadBalancers = []\<rparr>;
      albSg0 = \<lparr>sg_vpc = ''Vpc'', allowAllOutbound = True, ingressRules = []\<rparr>;
      albSg' = addIngressRule albSg0 anyIpv4 (tcp 80);
      alb0 =
        \<lparr>alb_vpc = ''Vpc'', internetFacing = True, alb_securityGroup = ''AlbSg'',
         alb_vpcSubnets = selectSubnets vpc0 \<lparr>subnetGroupName = ''Public''\<rparr>,
         listeners = []\<rparr>;
      appTargetGroupBlue =
        \<lparr>targetGroupName = ''AppTargetGroupBlue'',
         tg_vpc = ''Vpc'',
         tg_protocol = ApplicationProtocol_HTTP,
         targetType = TargetType_IP,
         healthCheck =
           \<lparr>hc_path = Some ''/'', hc_port = Some ''80'', hc_protocol = Some Protocol_HTTP,
            hc_interval = None, hc_timeout = None, healthyThresholdCount = None,
            unhealthyThresholdCount = None, healthyHttpCodes = None\<rparr>\<rparr>;
      appTargetGroupGreen =
        \<lparr>targetGroupName = ''AppTargetGroupGreen'',
         tg_vpc = ''Vpc'',
         tg_protocol = ApplicationProtocol_HTTP,
         targetType = TargetType_IP,
         healthCheck =
           \<lparr>hc_path = Some ''/'', hc_port = Some ''80'', hc_protocol = Some Protocol_HTTP,
            hc_interval = None, hc_timeout = None, healthyThresholdCount = None,
            unhealthyThresholdCount = None, healthyHttpCodes = None\<rparr>\<rparr>;
      alb' = addListener alb0 ''AlbListener''
        \<lparr>listenerPort = 80,
         listenerProtocol = ApplicationProtocol_HTTP,
         defaultAction =
           fixedResponse 404 \<lparr>contentType = ''text/plain'', messageBody = ''Not Found''\<rparr>\<rparr>;
      albListenerRule =
        \<lparr>listener = ''AlbListener'',
         priority = 1,
         conditions = [pathPatterns [''*'']],
         action = forward [''AppTargetGroupBlue'']\<rparr>;
      alb'' = addListener alb' ''AlbTestListener''
        \<lparr>listenerPort = 8080,
         listenerProtocol = ApplicationProtocol_HTTP,
         defaultAction =
           fixedResponse 404 \<lparr>contentType = ''text/plain'', messageBody = ''Not Found''\<rparr>\<rparr>;
      albTestListenerRule =
        \<lparr>listener = ''AlbTestListener'',
         priority = 1,
         conditions = [pathPatterns [''*'']],
         action = forward [''AppTargetGroupGreen'']\<rparr>;
      target = loadBalancerTarget service0
        \<lparr>lbt_containerName = ''app'',
         lbt_containerPort = 80,
         lbt_protocol = ecs_TCP,
         alternateTarget = Some
           \<lparr>alternateTargetId = ''AlternateTarget'',
            alternateTargetGroup = ''AppTargetGroupGreen'',
            productionListener = Some (applicationListenerRule ''AlbListenerRule''),
            testListener = Some (applicationListenerRule ''AlbTestListenerRule''),
            role = Some ''InfrastructureRole''\<rparr>\<rparr>;
      service' = attachToApplicationTargetGroup service0 target ''AppTargetGroupBlue''
    in
      \<lparr>stackId = sid,
       stackProps = props,
       vpc = vpc0,
       cluster = cluster0,
       taskExecutionRole = taskExecutionRole0,
       taskDefinition = taskDefinition',
       appSg = appSg0,
       infrastructureRole = infrastructureRole0,
       service = service',
       albSg = albSg',
       alb = alb'',
       targetGroups =
         [(''AppTargetGroupBlue'', appTargetGroupBlue),
          (''AppTargetGroupGreen'', appTargetGroupGreen)],
       listenerRules =
         [(''AlbListenerRule'', albListenerRule),
          (''AlbTestListenerRule'', albTestListenerRule)]\<rparr>)"

section \<open>Reading the declared graph\<close>

text \<open>Constructs are found by their construct id.\<close>

definition findListener :: "Stack \<Rightarrow> string \<Rightarrow> ApplicationListener option" where
  "findListener s lid = map_of (listeners (alb s)) lid"

definition findRule :: "Stack \<Rightarrow> string \<Rightarrow> ApplicationListenerRule option" where
  "findRule s rid = map_of (listenerRules s) rid"

definition findTargetGroup :: "Stack \<Rightarrow> string \<Rightarrow> ApplicationTargetGroup option" where
  "findTargetGroup s tid = map_of (targetGroups s) tid"

text \<open>
  A route, as the service sees it: the listener rule named by the alternate target's
  \<open>productionListener\<close> or \<open>testListener\<close>, read together with the port of the
  listener the rule belongs to and the target groups its action forwards to.
\<close>

record Route =
  route_port :: nat
  route_priority :: nat
  route_conditions :: "ListenerCondition list"
  route_pools :: "string list"

fun forwardTargets :: "ListenerAction \<Rightarrow> string list" where
  "forwardTargets (forward tgs) = tgs"
| "forwardTargets (fixedResponse code opts) = []"

definition routeOfRule :: "Stack \<Rightarrow> ListenerRuleConfiguration option \<Rightarrow> Route option" where
  "routeOfRule s cfg =
     (case cfg of
        Some (applicationListenerRule rid) \<Rightarrow>
          (case findRule s rid of
             None \<Rightarrow> None
           | Some r \<Rightarrow>
               (case findListener s (listener r) of
                  None \<Rightarrow> None
                | Some l \<Rightarrow>
                    Some \<lparr>route_port = listenerPort l,
                          route_priority = priority r,
                          route_conditions = conditions r,
                          route_pools = forwardTargets (action r)\<rparr>))
      | Some (networkListener lid) \<Rightarrow> None
      | None \<Rightarrow> None)"

definition serviceAlternateTarget :: "Stack \<Rightarrow> AlternateTarget option" where
  "serviceAlternateTarget s =
     (case loadBalancers (service s) of
        [lb] \<Rightarrow> alternateTarget (lb_target lb)
      | _ \<Rightarrow> None)"

definition productionRoute :: "Stack \<Rightarrow> Route option" where
  "productionRoute s =
     (case serviceAlternateTarget s of
        Some a \<Rightarrow> routeOfRule s (productionListener a)
      | None \<Rightarrow> None)"

definition testRoute :: "Stack \<Rightarrow> Route option" where
  "testRoute s =
     (case serviceAlternateTarget s of
        Some a \<Rightarrow> routeOfRule s (testListener a)
      | None \<Rightarrow> None)"

text \<open>
  The target group the service is attached to is the one that serves production at
  first; the alternate target group is the other generation.
\<close>

definition productionPool :: "Stack \<Rightarrow> string option" where
  "productionPool s =
     (case loadBalancers (service s) of
        [lb] \<Rightarrow> Some (lb_targetGroup lb)
      | _ \<Rightarrow> None)"

definition alternatePool :: "Stack \<Rightarrow> string option" where
  "alternatePool s = map_option alternateTargetGroup (serviceAlternateTarget s)"

text \<open>
  What a listener does with a request: the rules attached to it are tried in order of
  priority, the first rule all of whose conditions match gives the action, and
  \<open>defaultAction\<close> is taken when no rule matches. How a single condition is matched
  against a request is the load balancer's business and is the parameter \<open>m\<close>.
\<close>

definition ruleMatches ::
  "(ListenerCondition \<Rightarrow> 'r \<Rightarrow> bool) \<Rightarrow> ApplicationListenerRule \<Rightarrow> 'r \<Rightarrow> bool" where
  "ruleMatches m r req = list_all (\<lambda>c. m c req) (conditions r)"

definition listenerAction ::
  "(ListenerCondition \<Rightarrow> 'r \<Rightarrow> bool) \<Rightarrow> ApplicationListener \<Rightarrow>
     ApplicationListenerRule list \<Rightarrow> 'r \<Rightarrow> ListenerAction" where
  "listenerAction m l rs req =
     (case find (\<lambda>r. ruleMatches m r req) (sort_key priority rs) of
        Some r \<Rightarrow> action r
      | None \<Rightarrow> defaultAction l)"

section \<open>Properties of the declared graph\<close>

lemma listenerAction_no_match:
  assumes "\<forall>r \<in> set rs. \<not> ruleMatches m r req"
  shows "listenerAction m l rs req = defaultAction l"
proof -
  have "find (\<lambda>r. ruleMatches m r req) (sort_key priority rs) = None"
    using assms by (simp add: find_None_iff)
  then show ?thesis
    by (simp add: listenerAction_def)
qed

lemma findListener_IacStack:
  "findListener (IacStack sid props) lid =
     (if lid = ''AlbListener'' then
        Some \<lparr>listenerPort = 80, listenerProtocol = ApplicationProtocol_HTTP,
              defaultAction = fixedResponse 404
                \<lparr>contentType = ''text/plain'', messageBody = ''Not Found''\<rparr>\<rparr>
      else if lid = ''AlbTestListener'' then
        Some \<lparr>listenerPort = 8080, listenerProtocol = ApplicationProtocol_HTTP,
              defaultAction = fixedResponse 404
                \<lparr>contentType = ''text/plain'', messageBody = ''Not Found''\<rparr>\<rparr>
      else None)"
  by (simp add: findListener_def IacStack_def Let_def addListener_def)

lemma service_IacStack_loadBalancers:
  "loadBalancers (service (IacStack sid props)) =
     [\<lparr>lb_targetGroup = ''AppTargetGroupBlue'',
       lb_target =
         \<lparr>lbt_containerName = ''app'', lbt_containerPort = 80, lbt_protocol = ecs_TCP,
          alternateTarget = Some
            \<lparr>alternateTargetId = ''AlternateTarget'',
             alternateTargetGroup = ''AppTargetGroupGreen'',
             productionListener = Some (applicationListenerRule ''AlbListenerRule''),
             testListener = Some (applicationListenerRule ''AlbTestListenerRule''),
             role = Some ''InfrastructureRole''\<rparr>\<rparr>\<rparr>]"
  by (simp add: IacStack_def Let_def attachToApplicationTargetGroup_def
      loadBalancerTarget_def)

lemma findRule_IacStack:
  "findRule (IacStack sid props) rid =
     (if rid = ''AlbListenerRule'' then
        Some \<lparr>listener = ''AlbListener'', priority = 1,
              conditions = [pathPatterns [''*'']],
              action = forward [''AppTargetGroupBlue'']\<rparr>
      else if rid = ''AlbTestListenerRule'' then
        Some \<lparr>listener = ''AlbTestListener'', priority = 1,
              conditions = [pathPatterns [''*'']],
              action = forward [''AppTargetGroupGreen'']\<rparr>
      else None)"
  by (simp add: findRule_def IacStack_def Let_def)

text \<open>
  C7. The bake time of the service is the literal two minutes: whatever id and
  properties the stack is constructed with, \<open>bakeTime\<close> is \<open>Duration.minutes(2)\<close>,
  that is amount 2 in unit minutes.
\<close>

theorem bakeTime_two_minutes:
  "bakeTime (service (IacStack sid props)) = Duration_minutes 2
   \<and> amount (bakeTime (service (IacStack sid props))) = 2
   \<and> timeUnit (bakeTime (service (IacStack sid props))) = Minutes"
  by (simp add: IacStack_def Let_def attachToApplicationTargetGroup_def Duration_minutes_def)

text \<open>
  C8. In the declared graph the production route is the rule of priority 1 with path
  pattern \<open>*\<close> on the listener of port 80 and forwards to the blue target group; the
  test route is the rule of priority 1 with path pattern \<open>*\<close> on the listener of port
  8080 and forwards to the green target group. The service is attached to blue, and
  green is its alternate target group. Both names are target groups of the stack.
\<close>

theorem initial_routes:
  "productionRoute (IacStack sid props) =
     Some \<lparr>route_port = 80, route_priority = 1,
           route_conditions = [pathPatterns [''*'']],
           route_pools = [''AppTargetGroupBlue'']\<rparr>
   \<and> testRoute (IacStack sid props) =
     Some \<lparr>route_port = 8080, route_priority = 1,
           route_conditions = [pathPatterns [''*'']],
           route_pools = [''AppTargetGroupGreen'']\<rparr>
   \<and> productionPool (IacStack sid props) = Some ''AppTargetGroupBlue''
   \<and> alternatePool (IacStack sid props) = Some ''AppTargetGroupGreen''
   \<and> map_option targetGroupName (findTargetGroup (IacStack sid props) ''AppTargetGroupBlue'')
       = Some ''AppTargetGroupBlue''
   \<and> map_option targetGroupName (findTargetGroup (IacStack sid props) ''AppTargetGroupGreen'')
       = Some ''AppTargetGroupGreen''"
proof -
  have blue: "map_option targetGroupName
      (findTargetGroup (IacStack sid props) ''AppTargetGroupBlue'') = Some ''AppTargetGroupBlue''"
    by (simp add: findTargetGroup_def IacStack_def Let_def)
  have green: "map_option targetGroupName
      (findTargetGroup (IacStack sid props) ''AppTargetGroupGreen'') = Some ''AppTargetGroupGreen''"
    by (simp add: findTargetGroup_def IacStack_def Let_def)
  have prod: "productionRoute (IacStack sid props) =
     Some \<lparr>route_port = 80, route_priority = 1,
           route_conditions = [pathPatterns [''*'']],
           route_pools = [''AppTargetGroupBlue'']\<rparr>"
    by (simp add: productionRoute_def serviceAlternateTarget_def routeOfRule_def
        service_IacStack_loadBalancers findRule_IacStack findListener_IacStack)
  have test: "testRoute (IacStack sid props) =
     Some \<lparr>route_port = 8080, route_priority = 1,
           route_conditions = [pathPatterns [''*'']],
           route_pools = [''AppTargetGroupGreen'']\<rparr>"
    by (simp add: testRoute_def serviceAlternateTarget_def routeOfRule_def
        service_IacStack_loadBalancers findRule_IacStack findListener_IacStack)
  have pools: "productionPool (IacStack sid props) = Some ''AppTargetGroupBlue''
    \<and> alternatePool (IacStack sid props) = Some ''AppTargetGroupGreen''"
    by (simp add: productionPool_def alternatePool_def serviceAlternateTarget_def
        service_IacStack_loadBalancers)
  from prod test pools blue green show ?thesis by simp
qed

text \<open>
  C9. On the production listener and on the test listener alike, a request that no
  rule matches (in particular when the forwarding rule is not there) gets the default
  action, which is the fixed response 404 with content type \<open>text/plain\<close> and body
  \<open>Not Found\<close>; it forwards to no target group.
\<close>

theorem default_action_not_found:
  assumes "lid = ''AlbListener'' \<or> lid = ''AlbTestListener''"
    and "\<forall>r \<in> set rs. \<not> ruleMatches m r req"
  shows "\<exists>l. findListener (IacStack sid props) lid = Some l
     \<and> listenerAction m l rs req =
         fixedResponse 404 \<lparr>contentType = ''text/plain'', messageBody = ''Not Found''\<rparr>
     \<and> forwardTargets (listenerAction m l rs req) = []"
proof -
  obtain l where l: "findListener (IacStack sid props) lid = Some l"
    and d: "defaultAction l =
      fixedResponse 404 \<lparr>contentType = ''text/plain'', messageBody = ''Not Found''\<rparr>"
    using assms(1) by (auto simp add: findListener_IacStack)
  have "listenerAction m l rs req = defaultAction l"
    using assms(2) by (rule listenerAction_no_match)
  with l d show ?thesis by simp
qed

theorem default_action_not_found_witness:
  "(\<exists>l. findListener (IacStack ''IacStack'' None) ''AlbListener'' = Some l
     \<and> listenerAction (\<lambda>c (req :: string \<times> string). True) l [] (''example.com'', ''/'') =
         fixedResponse 404 \<lparr>contentType = ''text/plain'', messageBody = ''Not Found''\<rparr>
     \<and> forwardTargets
         (listenerAction (\<lambda>c (req :: string \<times> string). True) l [] (''example.com'', ''/'')) = [])
   \<and> (\<exists>l. findListener (IacStack ''IacStack'' None) ''AlbTestListener'' = Some l
     \<and> listenerAction
         (\<lambda>c (req :: string \<times> string). case c of hostHeaders hs \<Rightarrow> fst req \<in> set hs | _ \<Rightarrow> True) l
         [\<lparr>listener = ''AlbTestListener'', priority = 1,
           conditions = [hostHeaders [''example.com'']],
           action = forward [''AppTargetGroupGreen'']\<rparr>]
         (''other.org'', ''/'') =
         fixedResponse 404 \<lparr>contentType = ''text/plain'', messageBody = ''Not Found''\<rparr>
     \<and> forwardTargets
         (listenerAction
           (\<lambda>c (req :: string \<times> string). case c of hostHeaders hs \<Rightarrow> fst req \<in> set hs | _ \<Rightarrow> True) l
           [\<lparr>listener = ''AlbTestListener'', priority = 1,
             conditions = [hostHeaders [''example.com'']],
             action = forward [''AppTargetGroupGreen'']\<rparr>]
           (''other.org'', ''/'')) = [])"
  using default_action_not_found
      [of "''AlbListener''" "[]" "\<lambda>c (req :: string \<times> string). True" "(''example.com'', ''/'')"
          "''IacStack''" None]
    default_action_not_found
      [of "''AlbTestListener''"
          "[\<lparr>listener = ''AlbTestListener'', priority = 1,
             conditions = [hostHeaders [''example.com'']],
             action = forward [''AppTargetGroupGreen'']\<rparr>]"
          "\<lambda>c (req :: string \<times> string). case c of hostHeaders hs \<Rightarrow> fst req \<in> set hs | _ \<Rightarrow> True"
          "(''other.org'', ''/'')" "''IacStack''" None]
  by (simp add: ruleMatches_def)

text \<open>
  C10. The blue and the green target group are declared with the same health check
  (protocol HTTP, path \<open>/\<close>, port \<open>80\<close>, every other parameter left to its default),
  the same protocol HTTP and the same target type IP.
\<close>

theorem target_groups_same_health_check:
  "map_option healthCheck (findTargetGroup (IacStack sid props) ''AppTargetGroupBlue'') =
     Some \<lparr>hc_path = Some ''/'', hc_port = Some ''80'', hc_protocol = Some Protocol_HTTP,
           hc_interval = None, hc_timeout = None, healthyThresholdCount = None,
           unhealthyThresholdCount = None, healthyHttpCodes = None\<rparr>
   \<and> map_option healthCheck (findTargetGroup (IacStack sid props) ''AppTargetGroupGreen'') =
       map_option healthCheck (findTargetGroup (IacStack sid props) ''AppTargetGroupBlue'')
   \<and> map_option targetType (findTargetGroup (IacStack sid props) ''AppTargetGroupBlue'')
       = Some TargetType_IP
   \<and> map_option targetType (findTargetGroup (IacStack sid props) ''AppTargetGroupGreen'')
       = Some TargetType_IP
   \<and> map_option tg_protocol (findTargetGroup (IacStack sid props) ''AppTargetGroupBlue'')
       = Some ApplicationProtocol_HTTP
   \<and> map_option tg_protocol (findTargetGroup (IacStack sid props) ''AppTargetGroupGreen'')
       = Some ApplicationProtocol_HTTP"
  by (simp add: findTargetGroup_def IacStack_def Let_def)

end
